theory Spec2Isabelle
  imports Main "HOL-Library.Sublist" "HOL-Library.Char_ord" "HOL-Library.List_Lexorder"
begin

section \<open>Python values shared by the modules\<close>

text \<open>
  Exceptions are values. Only the classes that the source names, or that its calls raise,
  are kept apart; \<open>KeyboardInterrupt\<close> and \<open>SystemExit\<close> derive from \<open>BaseException\<close>
  only, every other class derives from \<open>Exception\<close>. An exception carries its message
  and the \<open>__cause__\<close> set by \<open>raise ... from e\<close>.
\<close>

datatype exc_class =
  Exception | XBRLParserException | IndexError | AttributeError | TypeError
  | ProgrammingError | OperationalError | FileNotFoundError | ConnectionError
  | KeyboardInterrupt | SystemExit

datatype py_exc = PyExc (exc_cls: exc_class) (exc_msg: string) (exc_cause: "py_exc option")

fun is_Exception :: "exc_class \<Rightarrow> bool" where
  "is_Exception KeyboardInterrupt = False"
| "is_Exception SystemExit = False"
| "is_Exception _ = True"

text \<open>Attribute access on \<open>None\<close> (the interpreter's quoting of the names is left out).\<close>

definition none_has_no_attribute :: "string \<Rightarrow> py_exc" where
  "none_has_no_attribute a = PyExc AttributeError (''NoneType object has no attribute '' @ a) None"

text \<open>\<open>xs[i]\<close> for the non-negative constant indices the source uses.\<close>

definition subscript :: "'a list \<Rightarrow> nat \<Rightarrow> py_exc + 'a" where
  "subscript xs i =
     (if i < length xs then Inr (xs ! i) else Inl (PyExc IndexError ''index out of range'' None))"

text \<open>Records of the \<open>logging\<close> module: level, logger name, message, attached exception.\<close>

datatype level = INFO | WARNING | ERROR

datatype log_record =
  LogRecord (lr_level: level) (lr_logger: string) (lr_msg: string) (lr_exc: "py_exc option")

section \<open>store.py\<close>

text \<open>
  The table \<open>DownloadedDocs\<close> as its \<open>CREATE TABLE\<close> statement declares it: a row has the
  columns id, ticker, doc_type, dir_path, updated_at, in this order. \<open>SELECT *\<close> returns a
  row as the tuple of its column values.
\<close>

datatype row =
  Row (row_id: int) (row_ticker: string) (row_doc_type: string) (row_dir_path: string)
      (row_updated_at: string)

datatype sql_value = SqlInt int | SqlText string

definition select_star :: "row \<Rightarrow> sql_value list" where
  "select_star r =
     [SqlInt (row_id r), SqlText (row_ticker r), SqlText (row_doc_type r),
      SqlText (row_dir_path r), SqlText (row_updated_at r)]"

text \<open>
  The state of the process and of the database file at \<open>DB_PATH\<close>:
  \<^item> \<open>store_connection\<close> and \<open>cursor\<close> are the module globals \<open>_store_connection\<close> and
    \<open>_cursor\<close>; a connection object is a handle, and a cursor is known by the handle of
    the connection that made it;
  \<^item> \<open>open_connections\<close> holds the handles that are not closed, \<open>connections_made\<close>
    the next fresh handle;
  \<^item> \<open>DownloadedDocs\<close> is the table in the database file (\<open>None\<close>: no such table), its rows
    in rowid order;
  \<^item> \<open>stdout\<close> collects what \<open>print\<close> writes, \<open>log_records\<close> what the loggers emit.
\<close>

record state =
  store_connection :: "nat option"
  cursor :: "nat option"
  open_connections :: "nat list"
  connections_made :: nat
  DownloadedDocs :: "row list option"
  stdout :: "string list"
  log_records :: "log_record list"

definition initial_state :: state where
  "initial_state =
     \<lparr>store_connection = None, cursor = None, open_connections = [], connections_made = 0,
      DownloadedDocs = None, stdout = [], log_records = []\<rparr>"

definition table_rows :: "state \<Rightarrow> row list" where
  "table_rows s = (case DownloadedDocs s of None \<Rightarrow> [] | Some rs \<Rightarrow> rs)"

subsection \<open>The SQL statements\<close>

text \<open>
  A statement maps the table to an error, or to the new table and the result rows.
  \<open>id INTEGER PRIMARY KEY\<close> is the rowid: an insert that gives none takes one more than
  the largest rowid in the table (1 in an empty table).
\<close>

type_synonym statement = "row list option \<Rightarrow> py_exc + (row list option \<times> sql_value list list)"

definition no_such_table :: py_exc where
  "no_such_table = PyExc OperationalError ''no such table: DownloadedDocs'' None"

definition new_rowid :: "row list \<Rightarrow> int" where
  "new_rowid rs = fold max (map row_id rs) 0 + 1"

definition conflicts :: "string \<Rightarrow> string \<Rightarrow> row \<Rightarrow> bool" where
  "conflicts t d r = (row_ticker r = t \<and> row_doc_type r = d)"

text \<open>\<open>CREATE TABLE IF NOT EXISTS DownloadedDocs (...)\<close>\<close>

definition create_table_if_not_exists :: statement where
  "create_table_if_not_exists tbl =
     (case tbl of None \<Rightarrow> Inr (Some [], []) | Some rs \<Rightarrow> Inr (Some rs, []))"

text \<open>
  \<open>INSERT INTO DownloadedDocs (ticker, doc_type, dir_path) VALUES (?, ?, ?)\<close> under
  \<open>UNIQUE(ticker, doc_type) ON CONFLICT REPLACE\<close>: the rows that hold the same
  (ticker, doc_type) are deleted, then the new row is inserted. \<open>updated_at\<close> takes its
  default, the current timestamp \<open>now\<close>.
\<close>

definition insert_replace :: "string \<Rightarrow> string \<Rightarrow> string \<Rightarrow> string \<Rightarrow> statement" where
  "insert_replace now t d p tbl =
     (case tbl of
        None \<Rightarrow> Inl no_such_table
      | Some rs \<Rightarrow>
          Inr (Some (filter (\<lambda>r. \<not> conflicts t d r) rs @ [Row (new_rowid rs) t d p now]), []))"

text \<open>
  \<open>SELECT * FROM DownloadedDocs WHERE ticker =?\<close>: the search runs over the index of the
  uniqueness constraint on (ticker, doc_type), so the rows of a ticker come in the order
  of their doc_type, compared byte by byte.
\<close>

definition select_by_ticker :: "string \<Rightarrow> statement" where
  "select_by_ticker t tbl =
     (case tbl of
        None \<Rightarrow> Inl no_such_table
      | Some rs \<Rightarrow>
          Inr (Some rs, map select_star (sort_key row_doc_type (filter (\<lambda>r. row_ticker r = t) rs))))"

text \<open>\<open>SELECT * FROM DownloadedDocs WHERE ticker =? AND doc_type =?\<close>\<close>

definition select_by_ticker_doc_type :: "string \<Rightarrow> string \<Rightarrow> statement" where
  "select_by_ticker_doc_type t d tbl =
     (case tbl of
        None \<Rightarrow> Inl no_such_table
      | Some rs \<Rightarrow> Inr (Some rs, map select_star (filter (conflicts t d) rs)))"

text \<open>
  \<open>_cursor.execute(...)\<close>: fails on \<open>None\<close>, fails on a cursor whose connection is closed,
  and runs the statement otherwise; the rows it yields are what \<open>fetchall\<close> returns.
\<close>

definition cursor_execute :: "statement \<Rightarrow> state \<Rightarrow> state \<times> (py_exc + sql_value list list)" where
  "cursor_execute stmt s =
     (case cursor s of
        None \<Rightarrow> (s, Inl (none_has_no_attribute ''execute''))
      | Some h \<Rightarrow>
          if h \<notin> set (open_connections s)
          then (s, Inl (PyExc ProgrammingError ''Cannot operate on a closed database.'' None))
          else (case stmt (DownloadedDocs s) of
                  Inl e \<Rightarrow> (s, Inl e)
                | Inr (tbl, res) \<Rightarrow> (s\<lparr>DownloadedDocs := tbl\<rparr>, Inr res)))"

text \<open>\<open>_store_connection.commit()\<close>\<close>

definition connection_commit :: "state \<Rightarrow> state \<times> (py_exc + unit)" where
  "connection_commit s =
     (case store_connection s of
        None \<Rightarrow> (s, Inl (none_has_no_attribute ''commit''))
      | Some h \<Rightarrow>
          if h \<notin> set (open_connections s)
          then (s, Inl (PyExc ProgrammingError ''Cannot operate on a closed database.'' None))
          else (s, Inr ()))"

subsection \<open>The functions of the module\<close>

text \<open>
  \<open>close_store_conn\<close>: the test for \<open>None\<close> prints and falls through to
  \<open>_store_connection.close()\<close>.
\<close>

definition close_store_conn :: "state \<Rightarrow> state \<times> (py_exc + unit)" where
  "close_store_conn s =
     (let s1 = (if store_connection s = None
                then s\<lparr>stdout := stdout s @ [''store connection already closed'']\<rparr>
                else s)
      in case store_connection s1 of
           None \<Rightarrow> (s1, Inl (none_has_no_attribute ''close''))
         | Some h \<Rightarrow>
             (s1\<lparr>open_connections := removeAll h (open_connections s1),
                 store_connection := None\<rparr>, Inr ()))"

text \<open>
  \<open>open_store_conn\<close>: \<open>sqlite3.connect(DB_PATH)\<close> makes a fresh open connection (the
  database file is taken to be reachable), \<open>.cursor()\<close> a cursor on it.
\<close>

definition open_store_conn :: "state \<Rightarrow> state \<times> (py_exc + unit)" where
  "open_store_conn s =
     (case (if store_connection s \<noteq> None then close_store_conn s else (s, Inr ())) of
        (s1, Inl e) \<Rightarrow> (s1, Inl e)
      | (s1, Inr _) \<Rightarrow>
          (let h = connections_made s1
           in (s1\<lparr>store_connection := Some h, cursor := Some h,
                   open_connections := h # open_connections s1,
                   connections_made := Suc h\<rparr>, Inr ())))"

definition create_downloaded_info_table :: "state \<Rightarrow> state \<times> (py_exc + unit)" where
  "create_downloaded_info_table s =
     (case cursor_execute create_table_if_not_exists s of
        (s1, Inl e) \<Rightarrow> (s1, Inl e)
      | (s1, Inr _) \<Rightarrow> connection_commit s1)"

definition init_store :: "state \<Rightarrow> state \<times> (py_exc + unit)" where
  "init_store s =
     (case open_store_conn s of
        (s1, Inl e) \<Rightarrow> (s1, Inl e)
      | (s1, Inr _) \<Rightarrow> create_downloaded_info_table s1)"

definition save_info :: "string \<Rightarrow> string \<Rightarrow> string \<Rightarrow> string \<Rightarrow> state \<Rightarrow> state \<times> (py_exc + unit)" where
  "save_info now ticker doc_type save_dir s =
     (case cursor_execute (insert_replace now ticker doc_type save_dir) s of
        (s1, Inl e) \<Rightarrow> (s1, Inl e)
      | (s1, Inr _) \<Rightarrow> connection_commit s1)"

definition get_info :: "string \<Rightarrow> string option \<Rightarrow> state \<Rightarrow> state \<times> (py_exc + sql_value list list)" where
  "get_info ticker doc_type s =
     (case doc_type of
        None \<Rightarrow> cursor_execute (select_by_ticker ticker) s
      | Some d \<Rightarrow> cursor_execute (select_by_ticker_doc_type ticker d) s)"

text \<open>A sequence of saves, each at its own time, stopping at the first that raises.\<close>

fun save_infos :: "(string \<times> string \<times> string \<times> string) list \<Rightarrow> state \<Rightarrow> state \<times> (py_exc + unit)" where
  "save_infos [] s = (s, Inr ())"
| "save_infos ((now, t, d, p) # ops) s =
     (case save_info now t d p s of
        (s1, Inl e) \<Rightarrow> (s1, Inl e)
      | (s1, Inr _) \<Rightarrow> save_infos ops s1)"

text \<open>
  An open store: the globals hold a connection that is open and a cursor made from it,
  and the table exists. This is the state \<open>init_store\<close> leaves.
\<close>

definition store_open :: "state \<Rightarrow> bool" where
  "store_open s =
     (case store_connection s of
        None \<Rightarrow> False
      | Some h \<Rightarrow> cursor s = Some h \<and> h \<in> set (open_connections s) \<and> DownloadedDocs s \<noteq> None)"

definition unique_pairs :: "row list \<Rightarrow> bool" where
  "unique_pairs rs = distinct (map (\<lambda>r. (row_ticker r, row_doc_type r)) rs)"

section \<open>main.py\<close>

subsection \<open>Strings\<close>

text \<open>
  \<open>str.upper\<close> and \<open>str.lower\<close> as they act on strings of ASCII characters
  (\<open>ascii_only\<close>), which is what ticker symbols and the three document types are; on
  other characters Python follows the Unicode case tables, which these functions do not.
\<close>

definition ascii_only :: "string \<Rightarrow> bool" where
  "ascii_only s = list_all (\<lambda>c. (of_char c :: nat) < 128) s"

definition upper_char :: "char \<Rightarrow> char" where
  "upper_char c =
     (let n = (of_char c :: nat) in if 97 \<le> n \<and> n \<le> 122 then char_of (n - 32) else c)"

definition lower_char :: "char \<Rightarrow> char" where
  "lower_char c =
     (let n = (of_char c :: nat) in if 65 \<le> n \<and> n \<le> 90 then char_of (n + 32) else c)"

definition upper :: "string \<Rightarrow> string" where
  "upper s = map upper_char s"

definition lower :: "string \<Rightarrow> string" where
  "lower s = map lower_char s"

text \<open>\<open>sep.join(xs)\<close>\<close>

fun join :: "string \<Rightarrow> string list \<Rightarrow> string" where
  "join sep [] = []"
| "join sep [x] = x"
| "join sep (x # y # ys) = x @ sep @ join sep (y # ys)"

text \<open>The decimal digits of a length, as an f-string renders it.\<close>

fun str_nat :: "nat \<Rightarrow> string" where
  "str_nat n = (if n < 10 then [char_of (48 + n)] else str_nat (n div 10) @ [char_of (48 + n mod 10)])"

definition blank_line :: string where
  "blank_line = [CHR 0x0A, CHR 0x0A]"

subsection \<open>The parsed document\<close>

text \<open>
  The parser returns a BeautifulSoup tree: a tag has a name and contents, a string is a
  leaf. A leaf is a \<open>NavigableString\<close> (or \<open>CData\<close>), or a string of one of the other
  classes (a comment, a declaration, the content of a \<open>script\<close> or \<open>style\<close> element),
  kept as \<open>Comment\<close>. \<open>descendants\<close> lists the nodes below a node in document order;
  \<open>find\<close> returns the first descendant tag of a name or \<open>None\<close>; \<open>find_all\<close> with a
  function keeps the descendant tags on which the function returns a true value;
  \<open>get_text\<close> concatenates the strings below a node and leaves the other classes out.
\<close>

datatype node =
  is_Tag: Tag (name: string) (contents: "node list") | NavigableString string | Comment string

fun descendants :: "node \<Rightarrow> node list" where
  "descendants (Tag n cs) = concat (map (\<lambda>c. c # descendants c) cs)"
| "descendants (NavigableString t) = []"
| "descendants (Comment t) = []"

fun get_text :: "node \<Rightarrow> string" where
  "get_text (Tag n cs) = concat (map get_text cs)"
| "get_text (NavigableString t) = t"
| "get_text (Comment t) = []"

text \<open>
  The values the selecting function computes with, and Python's truth test on them:
  \<open>None\<close>, \<open>False\<close> and the empty string are false, a tag is true. \<open>a or b\<close> is \<open>a\<close>
  when \<open>a\<close> is true and \<open>b\<close> otherwise; \<open>a and b\<close> is \<open>b\<close> when \<open>a\<close> is true and
  \<open>a\<close> otherwise.
\<close>

datatype pyval = PyNone | PyBool bool | PyStr string | PyTag node

fun truthy :: "pyval \<Rightarrow> bool" where
  "truthy PyNone = False"
| "truthy (PyBool b) = b"
| "truthy (PyStr t) = (t \<noteq> [])"
| "truthy (PyTag x) = True"

definition py_or :: "pyval \<Rightarrow> pyval \<Rightarrow> pyval" where
  "py_or a b = (if truthy a then a else b)"

definition py_and :: "pyval \<Rightarrow> pyval \<Rightarrow> pyval" where
  "py_and a b = (if truthy a then b else a)"

definition find :: "node \<Rightarrow> string \<Rightarrow> pyval" where
  "find x n =
     (case filter (\<lambda>y. is_Tag y \<and> name y = n) (descendants x) of
        [] \<Rightarrow> PyNone
      | y # _ \<Rightarrow> PyTag y)"

definition find_all :: "(node \<Rightarrow> pyval) \<Rightarrow> node \<Rightarrow> node list" where
  "find_all f x = filter (\<lambda>y. is_Tag y \<and> truthy (f y)) (descendants x)"

text \<open>\<open>lambda x: (x.name == 'p' or 'div') and x.find('span')\<close>\<close>

definition p_span_lambda :: "node \<Rightarrow> pyval" where
  "p_span_lambda x = py_and (py_or (PyBool (name x = ''p'')) (PyStr ''div'')) (find x ''span'')"

subsection \<open>Documents and the external collaborators\<close>

text \<open>
  A \<open>Document\<close> has its text and its metadata. A document that \<open>TextLoader\<close> loaded is
  kept as the pair of \<open>metadata['source']\<close>, the path of its file, and that file's text.
\<close>

datatype Document = Document (page_content: string) (metadata: "(string \<times> string) list")

datatype loaded = Loaded (source: string) (file_text: string)

text \<open>
  The libraries and services the module calls are parameters:
  \<^item> \<open>downloader_init save_dir\<close> is the constructor call \<open>Downloader(_COMPANY, _EMAIL,
    save_dir)\<close>: the exception it raises, if any;
  \<^item> \<open>dl_get save_dir doc_type ticker limit\<close> is \<open>dl.get(doc_type, ticker, limit=...)\<close>
    on the client so made: the exception it raises, if any;
  \<^item> \<open>dir_loader_load dir_path\<close> is \<open>DirectoryLoader(dir_path, glob="**/*.txt",
    loader_cls=TextLoader).load()\<close>: the documents of a directory in enumeration order, or
    the exception it raises (a directory that is missing, a file that cannot be decoded);
  \<^item> \<open>xbrl_parse path\<close> is \<open>XBRLParser().parse(path)\<close>: the tree or the exception;
  \<^item> \<open>text_splitter chunk_size chunk_overlap docs\<close> is
    \<open>RecursiveCharacterTextSplitter(chunk_size=..., chunk_overlap=...).split_documents(docs)\<close>;
  \<^item> \<open>qdrant_from_documents chunks collection_name\<close> is the embedding of the chunks and
    \<open>Qdrant.from_documents\<close>: the exception it raises, if any;
  \<^item> \<open>current_timestamp\<close> is the database's \<open>CURRENT_TIMESTAMP\<close>.
\<close>

record env =
  downloader_init :: "string \<Rightarrow> py_exc option"
  dl_get :: "string \<Rightarrow> string \<Rightarrow> string \<Rightarrow> nat option \<Rightarrow> py_exc option"
  dir_loader_load :: "string \<Rightarrow> py_exc + loaded list"
  xbrl_parse :: "string \<Rightarrow> py_exc + node"
  text_splitter :: "nat \<Rightarrow> nat \<Rightarrow> Document list \<Rightarrow> py_exc + Document list"
  qdrant_from_documents :: "Document list \<Rightarrow> string \<Rightarrow> py_exc option"
  current_timestamp :: string

text \<open>The logger \<open>MAIN\<close>; \<open>log.exception\<close> writes at level ERROR with the exception in hand.\<close>

definition log_info :: "string \<Rightarrow> state \<Rightarrow> state" where
  "log_info m s = s\<lparr>log_records := log_records s @ [LogRecord INFO ''MAIN'' m None]\<rparr>"

definition log_warning :: "string \<Rightarrow> state \<Rightarrow> state" where
  "log_warning m s = s\<lparr>log_records := log_records s @ [LogRecord WARNING ''MAIN'' m None]\<rparr>"

definition log_exception :: "string \<Rightarrow> py_exc \<Rightarrow> state \<Rightarrow> state" where
  "log_exception m e s = s\<lparr>log_records := log_records s @ [LogRecord ERROR ''MAIN'' m (Some e)]\<rparr>"

subsection \<open>download_documents\<close>

text \<open>
  The client is made before the \<open>try\<close>: an exception of the constructor leaves the
  function as it is. Only \<open>dl.get\<close> runs inside the \<open>try\<close>, whose handler wraps every
  \<open>Exception\<close>.
\<close>

definition download_documents :: "env \<Rightarrow> string \<Rightarrow> string \<Rightarrow> string \<Rightarrow> nat option \<Rightarrow> py_exc + string" where
  "download_documents ev ticker0 doc_type save_dir docs_number =
     (let ticker = upper ticker0
      in case downloader_init ev save_dir of
           Some e \<Rightarrow> Inl e
         | None \<Rightarrow>
             (case dl_get ev save_dir doc_type ticker docs_number of
                Some e \<Rightarrow>
                  if is_Exception (exc_cls e)
                  then Inl (PyExc Exception
                             (''Failed to fetch document for '' @ ticker @ '' from Edgar database'')
                             (Some e))
                  else Inl e
              | None \<Rightarrow> Inr (save_dir @ ''/sec-edgar-filings/'' @ ticker @ ''/'' @ doc_type @ ''/'')))"

subsection \<open>combine_documents\<close>

text \<open>The text one parsed document contributes.\<close>

definition xbrl_text_of :: "node \<Rightarrow> string" where
  "xbrl_text_of xbrl_doc =
     (let p_span_tags = find_all p_span_lambda xbrl_doc
      in join '' '' (map get_text p_span_tags))"

text \<open>
  The inner loop over the documents of one directory; \<open>xbrl_texts\<close> is the list being
  appended to. The \<open>except\<close> clauses are tried in the order of the source; an exception
  that is no \<open>Exception\<close> leaves the function.
\<close>

fun parse_documents :: "env \<Rightarrow> loaded list \<Rightarrow> string list \<Rightarrow> state \<Rightarrow> state \<times> (py_exc + string list)" where
  "parse_documents ev [] xbrl_texts s = (s, Inr xbrl_texts)"
| "parse_documents ev (document # documents) xbrl_texts s =
     (case xbrl_parse ev (source document) of
        Inl e \<Rightarrow>
          if exc_cls e = XBRLParserException
          then parse_documents ev documents xbrl_texts
                 (log_warning (''Skipped document ['' @ source document
                                @ '']: is not a XBRL document'') s)
          else if exc_cls e = IndexError
          then parse_documents ev documents xbrl_texts
                 (log_warning (''Skipped document ['' @ source document
                                @ '']: is not a valid XBRL document. '' @ exc_msg e) s)
          else if is_Exception (exc_cls e)
          then parse_documents ev documents xbrl_texts
                 (log_exception (''Failed to parse document ['' @ source document @ '']'') e s)
          else (s, Inl e)
      | Inr xbrl_doc \<Rightarrow>
          parse_documents ev documents (xbrl_texts @ [xbrl_text_of xbrl_doc]) s)"

text \<open>
  The outer loop over the directories. \<open>dir_loader.load()\<close> is called outside the
  \<open>try\<close>: an exception it raises leaves the function.
\<close>

fun load_directories :: "env \<Rightarrow> string list \<Rightarrow> string list \<Rightarrow> state \<Rightarrow> state \<times> (py_exc + string list)" where
  "load_directories ev [] xbrl_texts s = (s, Inr xbrl_texts)"
| "load_directories ev (dir_path # dir_paths) xbrl_texts s =
     (case dir_loader_load ev dir_path of
        Inl e \<Rightarrow> (s, Inl e)
      | Inr documents \<Rightarrow>
          (case parse_documents ev documents xbrl_texts s of
             (s1, Inl e) \<Rightarrow> (s1, Inl e)
           | (s1, Inr xbrl_texts1) \<Rightarrow> load_directories ev dir_paths xbrl_texts1 s1))"

definition combine_documents :: "env \<Rightarrow> string list \<Rightarrow> state \<Rightarrow> state \<times> (py_exc + Document)" where
  "combine_documents ev dir_paths s =
     (case load_directories ev dir_paths [] s of
        (s1, Inl e) \<Rightarrow> (s1, Inl e)
      | (s1, Inr xbrl_texts) \<Rightarrow> (s1, Inr (Document (join blank_line xbrl_texts) [])))"

subsection \<open>split_documents and vectorize_and_save_to_store\<close>

definition split_documents :: "env \<Rightarrow> Document list \<Rightarrow> py_exc + Document list" where
  "split_documents ev docs = text_splitter ev 1200 20 docs"

definition vectorize_and_save_to_store :: "env \<Rightarrow> Document list \<Rightarrow> string \<Rightarrow> py_exc + unit" where
  "vectorize_and_save_to_store ev text_chunks collection_name =
     (case qdrant_from_documents ev text_chunks collection_name of
        Some e \<Rightarrow> Inl e
      | None \<Rightarrow> Inr ())"

subsection \<open>pipeline and main\<close>

definition pipeline :: "env \<Rightarrow> string \<Rightarrow> string \<Rightarrow> string \<Rightarrow> state \<Rightarrow> state \<times> (py_exc + unit)" where
  "pipeline ev ticker doc_type save_dir s =
     (case download_documents ev ticker doc_type save_dir None of
        Inl e \<Rightarrow> (s, Inl e)
      | Inr actually_docs_save_path \<Rightarrow>
     (let s1 = log_info (''Downloaded '' @ doc_type @ '' documents for '' @ ticker) s
      in case save_info (current_timestamp ev) ticker doc_type actually_docs_save_path s1 of
        (s2, Inl e) \<Rightarrow> (s2, Inl e)
      | (s2, Inr _) \<Rightarrow>
     (let s3 = log_info (''Saved '' @ doc_type @ '' documents for '' @ ticker) s2
      in case get_info ticker (Some doc_type) s3 of
        (s4, Inl e) \<Rightarrow> (s4, Inl e)
      | (s4, Inr rows) \<Rightarrow>
     (case subscript rows 0 of
        Inl e \<Rightarrow> (s4, Inl e)
      | Inr r \<Rightarrow>
     (case subscript r 3 of
        Inl e \<Rightarrow> (s4, Inl e)
      | Inr (SqlInt i) \<Rightarrow> (s4, Inl (PyExc TypeError ''expected str, not int'' None))
      | Inr (SqlText docs_path) \<Rightarrow>
     (case combine_documents ev [docs_path] s4 of
        (s5, Inl e) \<Rightarrow> (s5, Inl e)
      | (s5, Inr combined_docs) \<Rightarrow>
     (let s6 = log_info (''Combined '' @ doc_type @ '' documents for '' @ ticker) s5
      in case split_documents ev [combined_docs] of
        Inl e \<Rightarrow> (s6, Inl e)
      | Inr splitted_docs \<Rightarrow>
     (let s7 = log_info (''Split texts for '' @ ticker @ '' '' @ doc_type @ '' into ''
                          @ str_nat (length splitted_docs) @ '' chunks'') s6;
          collection_name = lower (ticker @ ''_'' @ doc_type);
          s8 = log_info (''Embedding and Saving '' @ doc_type @ '' documents for '' @ ticker
                          @ '' to Qdrant...'') s7
      in case vectorize_and_save_to_store ev splitted_docs collection_name of
        Inl e \<Rightarrow> (s8, Inl e)
      | Inr qdrant_store \<Rightarrow>
          (log_info (''Uploaded '' @ ticker @ '' '' @ doc_type @ '' to Qdrant to ''
                      @ collection_name @ '' collection'') s8, Inr ())))))))))"

datatype Namespace = Namespace (args_ticker: string) (args_doctype: string) (args_save_dir: string)

text \<open>
  \<open>main\<close>: the body of \<open>try\<close> is the pipeline; \<open>exit(0)\<close> in the handler of
  \<open>KeyboardInterrupt\<close> raises \<open>SystemExit\<close>; the \<open>finally\<close> clause runs whatever the
  outcome, and an exception raised in it takes the place of a pending one.
\<close>

definition main :: "env \<Rightarrow> Namespace \<Rightarrow> state \<Rightarrow> state \<times> (py_exc + unit)" where
  "main ev args s =
     (let ticker = upper (args_ticker args);
          doc_type = upper (args_doctype args);
          save_dir = args_save_dir args
      in case init_store s of
           (s0, Inl e) \<Rightarrow> (s0, Inl e)
         | (s0, Inr _) \<Rightarrow>
             (let (s2, outcome) =
                    (case pipeline ev ticker doc_type save_dir s0 of
                       (s1, Inr _) \<Rightarrow> (s1, Inr ())
                     | (s1, Inl e) \<Rightarrow>
                         if exc_cls e = KeyboardInterrupt
                         then (s1, Inl (PyExc SystemExit ''0'' None))
                         else if is_Exception (exc_cls e)
                         then (log_exception (''Problem executing the pipeline for '' @ ticker
                                               @ '' '' @ doc_type) e s1, Inr ())
                         else (s1, Inl e))
              in case close_store_conn s2 of
                   (s3, Inl e) \<Rightarrow> (s3, Inl e)
                 | (s3, Inr _) \<Rightarrow> (log_info ''Exit'' s3, outcome)))"

section \<open>Definitions for the statements\<close>

subsection \<open>The combiner\<close>

text \<open>
  For the statements about the combiner: the documents of the directories in enumeration
  order, up to the first directory on which the loader raises; the exception of that
  directory, if there is one; the trees of the documents that parse; and the failures of
  those that do not.
\<close>

fun enumerated :: "env \<Rightarrow> string list \<Rightarrow> loaded list" where
  "enumerated ev [] = []"
| "enumerated ev (p # ps) =
     (case dir_loader_load ev p of Inl e \<Rightarrow> [] | Inr docs \<Rightarrow> docs @ enumerated ev ps)"


definition parsed :: "env \<Rightarrow> loaded list \<Rightarrow> node list" where
  "parsed ev documents =
     concat (map (\<lambda>d. case xbrl_parse ev (source d) of Inl e \<Rightarrow> [] | Inr x \<Rightarrow> [x]) documents)"





text \<open>
  The combined text in the specification's words. The matched elements of a file are its
  paragraph and division elements that contain a span; the text of the file is their
  visible text joined by single spaces; the files are joined by a blank line.
\<close>

definition spec_matched :: "node \<Rightarrow> bool" where
  "spec_matched x =
     (is_Tag x \<and> (name x = ''p'' \<or> name x = ''div'')
      \<and> list_ex (\<lambda>y. is_Tag y \<and> name y = ''span'') (descendants x))"

definition spec_file_text :: "node \<Rightarrow> string" where
  "spec_file_text x = join '' '' (map get_text (filter spec_matched (descendants x)))"

definition spec_combined_text :: "env \<Rightarrow> string list \<Rightarrow> string" where
  "spec_combined_text ev dir_paths =
     join blank_line (map spec_file_text (parsed ev (enumerated ev dir_paths)))"


subsection \<open>Example environments\<close>


definition quiet_env :: env where
  "quiet_env =
     \<lparr>downloader_init = (\<lambda>save_dir. None),
      dl_get = (\<lambda>save_dir doc_type ticker limit. None),
      dir_loader_load = (\<lambda>dir_path. Inr []),
      xbrl_parse = (\<lambda>path. Inl (PyExc XBRLParserException ''The xbrl file is empty!'' None)),
      text_splitter =
        (\<lambda>chunk_size chunk_overlap docs. Inr (filter (\<lambda>d. page_content d \<noteq> []) docs)),
      qdrant_from_documents = (\<lambda>chunks collection_name. None),
      current_timestamp = ''2024-01-01 00:00:00''\<rparr>"

definition td_doc :: node where
  "td_doc = Tag ''[document]'' [Tag ''td'' [Tag ''span'' [NavigableString ''x'']]]"

definition td_env :: env where
  "td_env =
     quiet_env\<lparr>dir_loader_load :=
                 (\<lambda>dir_path. if dir_path = ''d'' then Inr [Loaded ''d/a.txt'' []] else Inr []),
               xbrl_parse := (\<lambda>path. Inr td_doc)\<rparr>"






text \<open>The two paragraphs inside the \<open>html\<close> and \<open>body\<close> elements that a markup parser puts around them.\<close>

definition wrapped_doc :: node where
  "wrapped_doc =
     Tag ''[document]''
       [Tag ''html''
          [Tag ''body''
             [Tag ''p'' [Tag ''span'' [NavigableString ''Revenue increased.'']],
              Tag ''p'' [Tag ''span'' [NavigableString ''Risks include X.'']]]]]"

definition wrapped_env :: env where
  "wrapped_env =
     quiet_env\<lparr>dir_loader_load :=
                 (\<lambda>dir_path. if dir_path = ''d'' then Inr [Loaded ''d/a.txt'' []] else Inr []),
               xbrl_parse := (\<lambda>path. Inr wrapped_doc)\<rparr>"


definition failing_env :: env where
  "failing_env =
     quiet_env\<lparr>dl_get := (\<lambda>save_dir doc_type ticker limit. Some (PyExc Exception ''network'' None))\<rparr>"

definition unreachable_env :: env where
  "unreachable_env =
     quiet_env\<lparr>downloader_init :=
                 (\<lambda>save_dir. Some (PyExc ConnectionError ''ticker table unavailable'' None))\<rparr>"

subsection \<open>The pipeline\<close>

text \<open>What a state holds of the connection: the two globals, the open handles, the handle counter.\<close>

definition conn_of :: "state \<Rightarrow> nat option \<times> nat option \<times> nat list \<times> nat" where
  "conn_of s = (store_connection s, cursor s, open_connections s, connections_made s)"

definition interrupt_env :: env where
  "interrupt_env =
     quiet_env\<lparr>dl_get := (\<lambda>save_dir doc_type ticker limit. Some (PyExc KeyboardInterrupt [] None))\<rparr>"

definition main_args :: Namespace where
  "main_args = Namespace ''aapl'' ''10-k'' ''.''"

section \<open>Properties of the store\<close>

lemma init_store_open: "store_open (fst (init_store s))"
  by (auto simp: init_store_def open_store_conn_def close_store_conn_def
      create_downloaded_info_table_def cursor_execute_def connection_commit_def
      create_table_if_not_exists_def store_open_def Let_def
      split: option.splits prod.splits sum.splits if_splits)

lemma save_info_open:
  assumes "store_open s"
  shows "save_info now t d p s =
           (s\<lparr>DownloadedDocs :=
                 Some (filter (\<lambda>r. \<not> conflicts t d r) (table_rows s) @ [Row (new_rowid (table_rows s)) t d p now])\<rparr>,
            Inr ())"
  using assms
  by (auto simp: store_open_def save_info_def cursor_execute_def connection_commit_def
      insert_replace_def table_rows_def split: option.splits)

lemma store_open_table_update:
  "store_open s \<Longrightarrow> store_open (s\<lparr>DownloadedDocs := Some rs\<rparr>)"
  by (auto simp: store_open_def split: option.splits)

lemma table_rows_update: "table_rows (s\<lparr>DownloadedDocs := Some rs\<rparr>) = rs"
  by (simp add: table_rows_def)

lemma get_info_open:
  assumes "store_open s"
  shows "get_info t (Some d) s = (s, Inr (map select_star (filter (conflicts t d) (table_rows s))))"
  using assms
  by (auto simp: store_open_def get_info_def cursor_execute_def
      select_by_ticker_doc_type_def table_rows_def split: option.splits)

lemma unique_pairs_insert:
  assumes "unique_pairs rs"
  shows "unique_pairs (filter (\<lambda>r. \<not> conflicts t d r) rs @ [Row i t d p now])"
  using assms
  by (auto simp: unique_pairs_def conflicts_def distinct_map_filter)

lemma unique_pairs_at_most_one:
  assumes "unique_pairs rs"
  shows "length (filter (conflicts t d) rs) \<le> 1"
  using assms
proof (induction rs)
  case Nil
  then show ?case by simp
next
  case (Cons r rs)
  show ?case
  proof (cases "conflicts t d r")
    case True
    with Cons.prems have "filter (conflicts t d) rs = []"
      by (force simp: unique_pairs_def conflicts_def filter_empty_conv image_iff)
    with True show ?thesis by simp
  next
    case False
    with Cons show ?thesis by (simp add: unique_pairs_def)
  qed
qed

lemma save_infos_open:
  assumes "store_open s" "unique_pairs (table_rows s)"
  shows "snd (save_infos ops s) = Inr () \<and> store_open (fst (save_infos ops s))
         \<and> unique_pairs (table_rows (fst (save_infos ops s)))"
  using assms
proof (induction ops arbitrary: s)
  case Nil
  then show ?case by simp
next
  case (Cons op ops)
  obtain now t d p where op: "op = (now, t, d, p)" by (cases op) auto
  let ?s1 = "s\<lparr>DownloadedDocs :=
                 Some (filter (\<lambda>r. \<not> conflicts t d r) (table_rows s) @ [Row (new_rowid (table_rows s)) t d p now])\<rparr>"
  have step: "save_info now t d p s = (?s1, Inr ())"
    using Cons.prems(1) by (rule save_info_open)
  have "store_open ?s1" using Cons.prems(1) by (rule store_open_table_update)
  moreover have "unique_pairs (table_rows ?s1)"
    using Cons.prems(2) by (simp add: table_rows_update unique_pairs_insert)
  ultimately show ?case using Cons.IH [of ?s1] by (simp add: op step)
qed


text \<open>
  Claim C10. For every ticker, document type and directory path, on an open store a save
  followed by a get for the same (ticker, doc_type) returns a non-empty list whose first
  row carries the saved path at position 3 of the tuple (id, ticker, doc_type, dir_path,
  updated_at); this is the element \<open>[0][3]\<close> that the pipeline reads.
\<close>
theorem save_then_get_round_trip:
  assumes "store_open s"
  shows "\<exists>s1 rows r.
           save_info now t d p s = (s1, Inr ())
           \<and> get_info t (Some d) s1 = (s1, Inr rows)
           \<and> subscript rows 0 = Inr r
           \<and> subscript r 3 = Inr (SqlText p)
           \<and> (\<exists>i u. r = [SqlInt i, SqlText t, SqlText d, SqlText p, SqlText u])"
proof -
  let ?new = "Row (new_rowid (table_rows s)) t d p now"
  let ?rs = "filter (\<lambda>r. \<not> conflicts t d r) (table_rows s) @ [?new]"
  let ?s1 = "s\<lparr>DownloadedDocs := Some ?rs\<rparr>"
  have save: "save_info now t d p s = (?s1, Inr ())"
    using assms by (rule save_info_open)
  have "store_open ?s1" using assms by (rule store_open_table_update)
  then have get: "get_info t (Some d) ?s1 = (?s1, Inr (map select_star (filter (conflicts t d) ?rs)))"
    by (simp add: get_info_open table_rows_update)
  have sel: "filter (conflicts t d) ?rs = [?new]"
    by (simp add: conflicts_def)
  show ?thesis
    using save get unfolding sel by (simp add: select_star_def subscript_def)
qed

text \<open>The round trip on the store that \<open>init_store\<close> opens on a fresh database.\<close>
theorem save_then_get_round_trip_witness:
  "store_open (fst (init_store initial_state))
   \<and> (\<exists>s1 rows r.
           save_info ''2024-01-01 00:00:00'' ''AAPL'' ''10-K'' ''./sec-edgar-filings/AAPL/10-K/''
             (fst (init_store initial_state)) = (s1, Inr ())
           \<and> get_info ''AAPL'' (Some ''10-K'') s1 = (s1, Inr rows)
           \<and> subscript rows 0 = Inr r
           \<and> subscript r 3 = Inr (SqlText ''./sec-edgar-filings/AAPL/10-K/'')
           \<and> (\<exists>i u. r = [SqlInt i, SqlText ''AAPL'', SqlText ''10-K'',
                           SqlText ''./sec-edgar-filings/AAPL/10-K/'', SqlText u]))"
proof -
  have h: "store_open (fst (init_store initial_state))" by (rule init_store_open)
  show ?thesis
    using h save_then_get_round_trip [OF h, of "''2024-01-01 00:00:00''" "''AAPL''" "''10-K''"
        "''./sec-edgar-filings/AAPL/10-K/''"]
    by simp
qed

text \<open>
  Claim C5. After any sequence of saves on an open store whose table meets its uniqueness
  constraint, the table holds at most one row for each (ticker, doc_type), and a further
  save for a pair leaves exactly one row for it, carrying the path saved last.
\<close>
theorem store_uniqueness:
  assumes "store_open s" and "unique_pairs (table_rows s)"
  shows "\<exists>s1. save_infos ops s = (s1, Inr ())
           \<and> (\<forall>t d. length (filter (conflicts t d) (table_rows s1)) \<le> 1)
           \<and> (\<forall>now t d p. \<exists>s2. save_info now t d p s1 = (s2, Inr ())
                 \<and> map row_dir_path (filter (conflicts t d) (table_rows s2)) = [p])"
proof -
  let ?s1 = "fst (save_infos ops s)"
  have all: "snd (save_infos ops s) = Inr () \<and> store_open ?s1 \<and> unique_pairs (table_rows ?s1)"
    using assms by (rule save_infos_open)
  then have run: "save_infos ops s = (?s1, Inr ())"
    by (simp add: prod_eq_iff)
  have one: "length (filter (conflicts t d) (table_rows ?s1)) \<le> 1" for t d
    using all unique_pairs_at_most_one [of "table_rows ?s1" t d] by blast
  have last: "\<exists>s2. save_info now t d p ?s1 = (s2, Inr ())
                 \<and> map row_dir_path (filter (conflicts t d) (table_rows s2)) = [p]" for now t d p
    using all by (simp add: save_info_open table_rows_update conflicts_def)
  show ?thesis using run one last by blast
qed

text \<open>
  Saving (AAPL, 10-K, /p1) and then (AAPL, 10-K, /p2) on a fresh store leaves one row for
  (AAPL, 10-K), with the path /p2.
\<close>
theorem store_uniqueness_witness:
  "store_open (fst (init_store initial_state))
   \<and> unique_pairs (table_rows (fst (init_store initial_state)))
   \<and> (\<exists>s1. save_infos [(''2024-01-01 00:00:00'', ''AAPL'', ''10-K'', ''/p1'')]
               (fst (init_store initial_state)) = (s1, Inr ())
         \<and> (\<exists>s2. save_info ''2024-01-02 00:00:00'' ''AAPL'' ''10-K'' ''/p2'' s1 = (s2, Inr ())
               \<and> map row_dir_path (filter (conflicts ''AAPL'' ''10-K'') (table_rows s2)) = [''/p2'']
               \<and> length (filter (conflicts ''AAPL'' ''10-K'') (table_rows s2)) = 1))"
proof -
  have h: "store_open (fst (init_store initial_state))" by (rule init_store_open)
  have u: "unique_pairs (table_rows (fst (init_store initial_state)))"
    by (simp add: init_store_def open_store_conn_def initial_state_def
        create_downloaded_info_table_def cursor_execute_def connection_commit_def
        create_table_if_not_exists_def table_rows_def unique_pairs_def)
  from store_uniqueness [OF h u, of "[(''2024-01-01 00:00:00'', ''AAPL'', ''10-K'', ''/p1'')]"]
  obtain s1 where s1: "save_infos [(''2024-01-01 00:00:00'', ''AAPL'', ''10-K'', ''/p1'')]
               (fst (init_store initial_state)) = (s1, Inr ())"
    and l: "\<forall>now t d p. \<exists>s2. save_info now t d p s1 = (s2, Inr ())
                 \<and> map row_dir_path (filter (conflicts t d) (table_rows s2)) = [p]"
    by blast
  from l [rule_format, of "''2024-01-02 00:00:00''" "''AAPL''" "''10-K''" "''/p2''"]
  obtain s2 where s2: "save_info ''2024-01-02 00:00:00'' ''AAPL'' ''10-K'' ''/p2'' s1 = (s2, Inr ())"
    and r: "map row_dir_path (filter (conflicts ''AAPL'' ''10-K'') (table_rows s2)) = [''/p2'']"
    by (elim exE conjE)
  from r have "length (map row_dir_path (filter (conflicts ''AAPL'' ''10-K'') (table_rows s2))) = 1"
    by simp
  then have "length (filter (conflicts ''AAPL'' ''10-K'') (table_rows s2)) = 1" by simp
  with h u s1 s2 r show ?thesis by simp
qed

text \<open>
  Claim C8 says that closing a store that is already closed logs a warning, does nothing
  else and returns. The code, run on the store that was opened and closed once: it prints
  to standard output, writes no log record, and raises \<open>AttributeError\<close> from
  \<open>_store_connection.close()\<close> on \<open>None\<close>.
\<close>
theorem close_store_conn_already_closed:
  "close_store_conn (fst (close_store_conn (fst (init_store initial_state)))) =
     (fst (close_store_conn (fst (init_store initial_state)))
        \<lparr>stdout := [''store connection already closed'']\<rparr>,
      Inl (PyExc AttributeError ''NoneType object has no attribute close'' None))"
  by (simp add: init_store_def open_store_conn_def initial_state_def close_store_conn_def
      create_downloaded_info_table_def cursor_execute_def connection_commit_def
      create_table_if_not_exists_def none_has_no_attribute_def)

section \<open>Properties of the combiner\<close>










lemma td_doc_text: "xbrl_text_of td_doc = ''x''"
  by (simp add: xbrl_text_of_def td_doc_def find_all_def p_span_lambda_def py_and_def py_or_def
      find_def)




lemma wrapped_doc_text:
  "xbrl_text_of wrapped_doc =
     ''Revenue increased.Risks include X. Revenue increased.Risks include X. Revenue increased. Risks include X.''"
  by (simp add: xbrl_text_of_def wrapped_doc_def find_all_def p_span_lambda_def py_and_def
      py_or_def find_def)

lemma wrapped_doc_spec_text: "spec_file_text wrapped_doc = ''Revenue increased. Risks include X.''"
  by (simp add: spec_file_text_def wrapped_doc_def spec_matched_def)










text \<open>
  Claim C1 says that only \<open>p\<close> and \<open>div\<close> elements that contain a \<open>span\<close> are
  selected. The code, run on a document whose only \<open>span\<close> lies in a \<open>td\<close> element:
  \<open>x.name == 'p' or 'div'\<close> is the true value \<open>'div'\<close> for every other name, so the
  \<open>td\<close> element is selected and its text is the text of the file.
\<close>
theorem span_in_other_tag_is_selected:
  "map name (find_all p_span_lambda td_doc) = [''td'']
   \<and> snd (combine_documents td_env [''d''] initial_state) = Inr (Document ''x'' [])"
proof -
  have sel: "map name (find_all p_span_lambda td_doc) = [''td'']"
    by (simp add: td_doc_def find_all_def p_span_lambda_def py_and_def py_or_def find_def)
  have run: "snd (combine_documents td_env [''d''] initial_state) = Inr (Document ''x'' [])"
    by (simp add: combine_documents_def td_env_def quiet_env_def td_doc_text)
  from sel run show ?thesis by simp
qed



text \<open>
  Claim C4 says that the text of a file is the visible text of its matched elements, the
  paragraph and division elements that contain a span, joined by single spaces. The code,
  run on a file whose two paragraphs lie inside \<open>html\<close> and \<open>body\<close>: the selecting
  function also takes \<open>html\<close> and \<open>body\<close>, since they contain a span, so the text of
  the paragraphs comes three times; the text in the specification's words is that of the
  two paragraphs alone.
\<close>
theorem enclosing_elements_are_matched:
  "snd (combine_documents wrapped_env [''d''] initial_state) =
     Inr (Document
       ''Revenue increased.Risks include X. Revenue increased.Risks include X. Revenue increased. Risks include X.''
       [])
   \<and> spec_combined_text wrapped_env [''d''] = ''Revenue increased. Risks include X.''"
proof -
  have run: "snd (combine_documents wrapped_env [''d''] initial_state) =
     Inr (Document
       ''Revenue increased.Risks include X. Revenue increased.Risks include X. Revenue increased. Risks include X.''
       [])"
    by (simp add: combine_documents_def wrapped_env_def quiet_env_def wrapped_doc_text)
  have spec: "spec_combined_text wrapped_env [''d''] = ''Revenue increased. Risks include X.''"
    by (simp add: spec_combined_text_def parsed_def wrapped_env_def quiet_env_def
        wrapped_doc_spec_text)
  from run spec show ?thesis by simp
qed




text \<open>
  Claim C7 as stated fails twice. The message of the wrapping error for AAPL and 10-K does
  not contain the document type. And a client that fails while it is constructed, before
  the \<open>try\<close>, is not wrapped: its own exception leaves the retriever.
\<close>
theorem wrapping_message_counterexample:
  "download_documents failing_env ''AAPL'' ''10-K'' ''.'' None =
     Inl (PyExc Exception ''Failed to fetch document for AAPL from Edgar database''
            (Some (PyExc Exception ''network'' None)))
   \<and> \<not> sublist ''10-K'' ''Failed to fetch document for AAPL from Edgar database''
   \<and> download_documents unreachable_env ''AAPL'' ''10-K'' ''.'' None =
       Inl (PyExc ConnectionError ''ticker table unavailable'' None)"
proof -
  have u: "upper ''AAPL'' = ''AAPL''" by code_simp
  have n: "\<not> sublist ''10-K'' ''Failed to fetch document for AAPL from Edgar database''"
    by code_simp
  have a: "download_documents failing_env ''AAPL'' ''10-K'' ''.'' None =
     Inl (PyExc Exception ''Failed to fetch document for AAPL from Edgar database''
            (Some (PyExc Exception ''network'' None)))"
    by (simp add: download_documents_def failing_env_def quiet_env_def u)
  have b: "download_documents unreachable_env ''AAPL'' ''10-K'' ''.'' None =
       Inl (PyExc ConnectionError ''ticker table unavailable'' None)"
    by (simp add: download_documents_def unreachable_env_def quiet_env_def)
  from a n b show ?thesis by (intro conjI)
qed

text \<open>
  Claim C7, amended. For every ticker of ASCII characters and every document type, if the
  client is constructed and its retrieval call raises any \<open>Exception\<close>, the retriever
  raises one wrapping \<open>Exception\<close>, chained from the original failure, whose message is
  \<open>Failed to fetch document for <TICKER> from Edgar database\<close>: it names the
  upper-cased ticker and does not depend on the document type.
\<close>
theorem retrieval_failure_is_wrapped:
  assumes "ascii_only ticker"
    and "downloader_init ev save_dir = None"
    and "dl_get ev save_dir doc_type (upper ticker) docs_number = Some e"
    and "is_Exception (exc_cls e)"
  shows "download_documents ev ticker doc_type save_dir docs_number =
           Inl (PyExc Exception
                  (''Failed to fetch document for '' @ upper ticker @ '' from Edgar database'')
                  (Some e))
         \<and> sublist (upper ticker)
             (''Failed to fetch document for '' @ upper ticker @ '' from Edgar database'')"
proof -
  have "sublist (upper ticker)
          (''Failed to fetch document for '' @ upper ticker @ '' from Edgar database'')"
    by (rule sublist_appendI)
  with assms show ?thesis by (simp add: download_documents_def)
qed

text \<open>A client that is constructed and then fails with a network error, asked for aapl and 10-K.\<close>
theorem retrieval_failure_is_wrapped_witness:
  "ascii_only ''aapl''
   \<and> downloader_init failing_env ''.'' = None
   \<and> dl_get failing_env ''.'' ''10-K'' (upper ''aapl'') None = Some (PyExc Exception ''network'' None)
   \<and> is_Exception (exc_cls (PyExc Exception ''network'' None))
   \<and> download_documents failing_env ''aapl'' ''10-K'' ''.'' None =
       Inl (PyExc Exception ''Failed to fetch document for AAPL from Edgar database''
              (Some (PyExc Exception ''network'' None)))"
proof -
  have u: "upper ''aapl'' = ''AAPL''" by code_simp
  have a: "ascii_only ''aapl''" by code_simp
  have c: "downloader_init failing_env ''.'' = None"
    by (simp add: failing_env_def quiet_env_def)
  have g: "dl_get failing_env ''.'' ''10-K'' (upper ''aapl'') None = Some (PyExc Exception ''network'' None)"
    by (simp add: failing_env_def quiet_env_def)
  have i: "is_Exception (exc_cls (PyExc Exception ''network'' None))" by simp
  show ?thesis
    using a c g i retrieval_failure_is_wrapped [OF a c g i] by (simp add: u)
qed

section \<open>Properties of the pipeline and of main\<close>

lemma conn_of_log [simp]:
  "conn_of (log_info m s) = conn_of s"
  "conn_of (log_warning m s) = conn_of s"
  "conn_of (log_exception m e s) = conn_of s"
  by (simp_all add: conn_of_def log_info_def log_warning_def log_exception_def)

lemma conn_of_cursor_execute: "conn_of (fst (cursor_execute stmt s)) = conn_of s"
  by (simp add: cursor_execute_def conn_of_def split: option.splits sum.splits prod.splits)

lemma conn_of_connection_commit: "conn_of (fst (connection_commit s)) = conn_of s"
  by (simp add: connection_commit_def split: option.splits)

lemma conn_of_save_info:
  assumes "save_info now t d p s = (s1, r)"
  shows "conn_of s1 = conn_of s"
proof (cases "cursor_execute (insert_replace now t d p) s")
  case (Pair sa ra)
  from Pair have a: "conn_of sa = conn_of s"
    using conn_of_cursor_execute [of "insert_replace now t d p" s] by simp
  show ?thesis
  proof (cases ra)
    case (Inl e)
    with Pair assms a show ?thesis by (simp add: save_info_def)
  next
    case (Inr x)
    with Pair assms have "s1 = fst (connection_commit sa)" by (simp add: save_info_def)
    with a show ?thesis by (simp add: conn_of_connection_commit)
  qed
qed

lemma conn_of_get_info:
  assumes "get_info t d s = (s1, r)"
  shows "conn_of s1 = conn_of s"
proof (cases d)
  case None
  with assms show ?thesis
    using conn_of_cursor_execute [of "select_by_ticker t" s] by (simp add: get_info_def)
next
  case (Some x)
  with assms show ?thesis
    using conn_of_cursor_execute [of "select_by_ticker_doc_type t x" s] by (simp add: get_info_def)
qed

lemma conn_of_parse_documents:
  "conn_of (fst (parse_documents ev documents xbrl_texts s)) = conn_of s"
  by (induction documents arbitrary: xbrl_texts s) (simp_all split: sum.splits)

lemma conn_of_load_directories:
  "conn_of (fst (load_directories ev dir_paths xbrl_texts s)) = conn_of s"
proof (induction dir_paths arbitrary: xbrl_texts s)
  case Nil
  then show ?case by simp
next
  case (Cons p ps)
  show ?case
  proof (cases "dir_loader_load ev p")
    case (Inl e)
    then show ?thesis by simp
  next
    case (Inr docs)
    show ?thesis
    proof (cases "parse_documents ev docs xbrl_texts s")
      case (Pair s1 r)
      then have "conn_of s1 = conn_of s"
        using conn_of_parse_documents [of ev docs xbrl_texts s] by simp
      with Pair Inr Cons.IH show ?thesis by (cases r) simp_all
    qed
  qed
qed

lemma conn_of_combine_documents:
  assumes "combine_documents ev dir_paths s = (s1, r)"
  shows "conn_of s1 = conn_of s"
proof (cases "load_directories ev dir_paths [] s")
  case (Pair sa ra)
  then have "conn_of sa = conn_of s"
    using conn_of_load_directories [of ev dir_paths "[]" s] by simp
  with Pair assms show ?thesis by (cases ra) (auto simp: combine_documents_def)
qed

lemma conn_of_pipeline:
  "conn_of (fst (pipeline ev ticker doc_type save_dir s)) = conn_of s"
proof (cases "download_documents ev ticker doc_type save_dir None")
  case (Inl e)
  then show ?thesis by (simp add: pipeline_def Let_def)
next
  case dl: (Inr path)
  let ?sa = "log_info (''Downloaded '' @ doc_type @ '' documents for '' @ ticker) s"
  obtain sb rb where sv: "save_info (current_timestamp ev) ticker doc_type path ?sa = (sb, rb)"
    by (cases "save_info (current_timestamp ev) ticker doc_type path ?sa") simp
  have cb: "conn_of sb = conn_of s" using conn_of_save_info [OF sv] by simp
  show ?thesis
  proof (cases rb)
    case (Inl e)
    with dl sv cb show ?thesis by (simp add: pipeline_def Let_def)
  next
    case svok: (Inr u)
    let ?sc = "log_info (''Saved '' @ doc_type @ '' documents for '' @ ticker) sb"
    obtain sd rd where gt: "get_info ticker (Some doc_type) ?sc = (sd, rd)"
      by (cases "get_info ticker (Some doc_type) ?sc") simp
    have cd: "conn_of sd = conn_of s" using conn_of_get_info [OF gt] cb by simp
    show ?thesis
    proof (cases rd)
      case (Inl e)
      with dl sv svok gt cd show ?thesis by (simp add: pipeline_def Let_def)
    next
      case gtok: (Inr rows)
      show ?thesis
      proof (cases "subscript rows 0")
        case (Inl e)
        with dl sv svok gt gtok cd show ?thesis by (simp add: pipeline_def Let_def)
      next
        case r0: (Inr rw)
        show ?thesis
        proof (cases "subscript rw 3")
          case (Inl e)
          with dl sv svok gt gtok r0 cd show ?thesis by (simp add: pipeline_def Let_def)
        next
          case r3: (Inr v)
          show ?thesis
          proof (cases v)
            case (SqlInt i)
            with dl sv svok gt gtok r0 r3 cd show ?thesis by (simp add: pipeline_def Let_def)
          next
            case tx: (SqlText docs_path)
            obtain se re where cm: "combine_documents ev [docs_path] sd = (se, re)"
              by (cases "combine_documents ev [docs_path] sd") simp
            have ce: "conn_of se = conn_of s" using conn_of_combine_documents [OF cm] cd by simp
            show ?thesis
            proof (cases re)
              case (Inl e)
              with dl sv svok gt gtok r0 r3 tx cm ce show ?thesis
                by (simp add: pipeline_def Let_def)
            next
              case cmok: (Inr combined_docs)
              show ?thesis
              proof (cases "split_documents ev [combined_docs]")
                case (Inl e)
                with dl sv svok gt gtok r0 r3 tx cm cmok ce show ?thesis
                  by (simp add: pipeline_def Let_def)
              next
                case sp: (Inr splitted_docs)
                show ?thesis
                proof (cases "vectorize_and_save_to_store ev splitted_docs
                                (lower (ticker @ ''_'' @ doc_type))")
                  case (Inl e)
                  with dl sv svok gt gtok r0 r3 tx cm cmok sp ce show ?thesis
                    by (simp add: pipeline_def Let_def)
                next
                  case (Inr q)
                  with dl sv svok gt gtok r0 r3 tx cm cmok sp ce show ?thesis
                    by (simp add: pipeline_def Let_def)
                qed
              qed
            qed
          qed
        qed
      qed
    qed
  qed
qed

lemma init_store_result:
  "\<exists>s0. init_store s = (s0, Inr ())
        \<and> store_connection s0 = Some (connections_made s)
        \<and> connections_made s \<in> set (open_connections s0)"
  by (auto simp: init_store_def open_store_conn_def close_store_conn_def
      create_downloaded_info_table_def cursor_execute_def connection_commit_def
      create_table_if_not_exists_def Let_def
      split: option.splits)

lemma close_store_conn_open:
  assumes "store_connection s = Some h"
  shows "\<exists>s1. close_store_conn s = (s1, Inr ()) \<and> store_connection s1 = None
              \<and> h \<notin> set (open_connections s1) \<and> log_records s1 = log_records s"
  using assms by (simp add: close_store_conn_def)

text \<open>
  Claim C9. Whatever the pipeline does, \<open>main\<close> closes the connection that
  \<open>init_store\<close> opened before it returns or exits: in the state it leaves, the global is
  \<open>None\<close> and that connection is closed, and \<open>Exit\<close> is logged after the teardown. A run
  that succeeds returns; a run that fails with an \<open>Exception\<close> is logged at level ERROR
  with ticker and document type and returns; an interrupt leaves through \<open>SystemExit(0)\<close>.
\<close>
theorem main_teardown:
  "\<exists>s1 out. main ev args s = (log_info ''Exit'' s1, out)
     \<and> connections_made s \<in> set (open_connections (fst (init_store s)))
     \<and> store_connection s1 = None
     \<and> connections_made s \<notin> set (open_connections s1)
     \<and> (case snd (pipeline ev (upper (args_ticker args)) (upper (args_doctype args))
                    (args_save_dir args) (fst (init_store s))) of
          Inr u \<Rightarrow> out = Inr ()
        | Inl e \<Rightarrow>
            if exc_cls e = KeyboardInterrupt then out = Inl (PyExc SystemExit ''0'' None)
            else if is_Exception (exc_cls e)
            then out = Inr ()
                 \<and> LogRecord ERROR ''MAIN''
                      (''Problem executing the pipeline for '' @ upper (args_ticker args)
                        @ '' '' @ upper (args_doctype args)) (Some e) \<in> set (log_records s1)
            else out = Inl e)"
proof -
  let ?t = "upper (args_ticker args)" and ?d = "upper (args_doctype args)"
  let ?h = "connections_made s"
  from init_store_result [of s] obtain s0 where
    init: "init_store s = (s0, Inr ())" and c0: "store_connection s0 = Some ?h"
    and o0: "?h \<in> set (open_connections s0)"
    by blast
  obtain sp rp where run: "pipeline ev ?t ?d (args_save_dir args) s0 = (sp, rp)"
    by (cases "pipeline ev ?t ?d (args_save_dir args) s0") simp
  from run have "conn_of sp = conn_of s0"
    using conn_of_pipeline [of ev ?t ?d "args_save_dir args" s0] by simp
  with c0 have cp: "store_connection sp = Some ?h" by (simp add: conn_of_def)
  show ?thesis
  proof (cases rp)
    case (Inr u)
    from close_store_conn_open [OF cp] obtain s1 where
      cl: "close_store_conn sp = (s1, Inr ())" and n: "store_connection s1 = None"
      and h: "?h \<notin> set (open_connections s1)"
      by blast
    from init run Inr cl have "main ev args s = (log_info ''Exit'' s1, Inr ())"
      by (simp add: main_def Let_def)
    with init run Inr o0 n h show ?thesis
      by (intro exI [of _ s1] exI [of _ "Inr ()"]) simp
  next
    case (Inl e)
    show ?thesis
    proof (cases "exc_cls e = KeyboardInterrupt")
      case True
      from close_store_conn_open [OF cp] obtain s1 where
        cl: "close_store_conn sp = (s1, Inr ())" and n: "store_connection s1 = None"
        and h: "?h \<notin> set (open_connections s1)"
        by blast
      from init run Inl True cl
      have "main ev args s = (log_info ''Exit'' s1, Inl (PyExc SystemExit ''0'' None))"
        by (simp add: main_def Let_def)
      with init run Inl True o0 n h show ?thesis
        by (intro exI [of _ s1] exI [of _ "Inl (PyExc SystemExit ''0'' None)"]) simp
    next
      case False
      show ?thesis
      proof (cases "is_Exception (exc_cls e)")
        case True
        let ?m = "''Problem executing the pipeline for '' @ ?t @ '' '' @ ?d"
        let ?sl = "log_exception ?m e sp"
        from cp have "store_connection ?sl = Some ?h" by (simp add: log_exception_def)
        from close_store_conn_open [OF this] obtain s1 where
          cl: "close_store_conn ?sl = (s1, Inr ())" and n: "store_connection s1 = None"
          and h: "?h \<notin> set (open_connections s1)" and l: "log_records s1 = log_records ?sl"
          by blast
        from l have rec: "LogRecord ERROR ''MAIN'' ?m (Some e) \<in> set (log_records s1)"
          by (simp add: log_exception_def)
        from init run Inl False True cl have "main ev args s = (log_info ''Exit'' s1, Inr ())"
          by (simp add: main_def Let_def)
        with init run Inl False True o0 n h rec show ?thesis
          by (intro exI [of _ s1] exI [of _ "Inr ()"]) simp
      next
        case nex: False
        from close_store_conn_open [OF cp] obtain s1 where
          cl: "close_store_conn sp = (s1, Inr ())" and n: "store_connection s1 = None"
          and h: "?h \<notin> set (open_connections s1)"
          by blast
        from init run Inl False nex cl have "main ev args s = (log_info ''Exit'' s1, Inl e)"
          by (simp add: main_def Let_def)
        with init run Inl False nex o0 n h show ?thesis
          by (intro exI [of _ s1] exI [of _ "Inl e"]) simp
      qed
    qed
  qed
qed


lemma upper_aapl: "upper ''aapl'' = ''AAPL''"
  by code_simp

lemma upper_10k: "upper ''10-k'' = ''10-K''"
  by code_simp

lemma upper_AAPL: "upper ''AAPL'' = ''AAPL''"
  by code_simp

lemma interrupted_pipeline:
  "snd (pipeline interrupt_env ''AAPL'' ''10-K'' ''.'' s) = Inl (PyExc KeyboardInterrupt [] None)"
  by (simp add: pipeline_def download_documents_def interrupt_env_def quiet_env_def upper_AAPL)

lemma failing_pipeline:
  "snd (pipeline failing_env ''AAPL'' ''10-K'' ''.'' s) =
     Inl (PyExc Exception ''Failed to fetch document for AAPL from Edgar database''
            (Some (PyExc Exception ''network'' None)))"
  by (simp add: pipeline_def download_documents_def failing_env_def quiet_env_def upper_AAPL)

lemma quiet_pipeline:
  "snd (pipeline quiet_env ''AAPL'' ''10-K'' ''.'' (fst (init_store initial_state))) = Inr ()"
  by (simp add: pipeline_def download_documents_def quiet_env_def upper_AAPL
      init_store_def open_store_conn_def initial_state_def close_store_conn_def
      create_downloaded_info_table_def cursor_execute_def connection_commit_def
      create_table_if_not_exists_def save_info_def get_info_def insert_replace_def
      select_by_ticker_doc_type_def conflicts_def select_star_def subscript_def
      combine_documents_def split_documents_def vectorize_and_save_to_store_def
      log_info_def Let_def)

text \<open>Three runs from a fresh process: an interrupt while downloading, a failed download, a run that succeeds.\<close>
theorem main_teardown_witness:
  "(\<exists>s1. main interrupt_env main_args initial_state
            = (log_info ''Exit'' s1, Inl (PyExc SystemExit ''0'' None))
         \<and> store_connection s1 = None \<and> 0 \<notin> set (open_connections s1))
   \<and> (\<exists>s1. main failing_env main_args initial_state = (log_info ''Exit'' s1, Inr ())
         \<and> store_connection s1 = None \<and> 0 \<notin> set (open_connections s1)
         \<and> LogRecord ERROR ''MAIN'' ''Problem executing the pipeline for AAPL 10-K''
              (Some (PyExc Exception ''Failed to fetch document for AAPL from Edgar database''
                       (Some (PyExc Exception ''network'' None)))) \<in> set (log_records s1))
   \<and> (\<exists>s1. main quiet_env main_args initial_state = (log_info ''Exit'' s1, Inr ())
         \<and> store_connection s1 = None \<and> 0 \<notin> set (open_connections s1))"
proof -
  have z: "connections_made initial_state = 0" by (simp add: initial_state_def)
  have a: "args_ticker main_args = ''aapl''" "args_doctype main_args = ''10-k''"
    "args_save_dir main_args = ''.''"
    by (simp_all add: main_args_def)
  have one: "\<exists>s1. main interrupt_env main_args initial_state
            = (log_info ''Exit'' s1, Inl (PyExc SystemExit ''0'' None))
         \<and> store_connection s1 = None \<and> 0 \<notin> set (open_connections s1)"
    using main_teardown [of interrupt_env main_args initial_state]
    by (auto simp: z a upper_aapl upper_10k interrupted_pipeline)
  have two: "\<exists>s1. main failing_env main_args initial_state = (log_info ''Exit'' s1, Inr ())
         \<and> store_connection s1 = None \<and> 0 \<notin> set (open_connections s1)
         \<and> LogRecord ERROR ''MAIN'' ''Problem executing the pipeline for AAPL 10-K''
              (Some (PyExc Exception ''Failed to fetch document for AAPL from Edgar database''
                       (Some (PyExc Exception ''network'' None)))) \<in> set (log_records s1)"
    using main_teardown [of failing_env main_args initial_state]
    by (auto simp: z a upper_aapl upper_10k failing_pipeline)
  have three: "\<exists>s1. main quiet_env main_args initial_state = (log_info ''Exit'' s1, Inr ())
         \<and> store_connection s1 = None \<and> 0 \<notin> set (open_connections s1)"
    using main_teardown [of quiet_env main_args initial_state]
    by (auto simp: z a upper_aapl upper_10k quiet_pipeline)
  from one two three show ?thesis by (intro conjI)
qed

end
